theory Spec2Isabelle
  imports
    Complex_Main
    "HOL-Library.Char_ord"
    "HOL-Library.List_Lexorder"
    "HOL-Library.Product_Lexorder"
begin

section \<open>Tidal readings: the \<open>Reader\<close> class of \<open>process.py\<close>\<close>

text \<open>
  \<open>process.py\<close> holds one class, \<open>Reader\<close>, whose only state is \<open>self.filename\<close> and
  \<open>self.data\<close>, a pandas DataFrame read from a CSV file. Each method is a few pandas
  calls. The embedding has two layers:

  \<^item> the pandas operations the methods call (\<open>df[name]\<close>, \<open>df[name] = \<dots>\<close>, \<open>to_numeric\<close>,
    \<open>fillna\<close>, \<open>to_datetime\<close>, \<open>pivot\<close>, \<open>.loc[a:b, :]\<close>, \<open>groupby(\<dots>).apply\<close>, \<open>concat\<close>,
    \<open>read_csv\<close>, \<open>to_csv\<close>), modelled on tables of cells;
  \<^item> the methods of \<open>Reader\<close>, written call by call as in the source, with \<open>self\<close> passed
    in and returned, and every exception a value \<open>Inl e\<close>.

  What pandas does with the text of one value (parsing a number or a date, printing a
  value into a CSV field) and what label slicing on the default integer row index does are
  not fixed by the source. They are the fields of a record \<open>pandas\<close> that every method
  takes as its first argument; the general theorems hold for every such record. A
  reference instance \<open>pd\<close> is defined after the methods and only used to run them on
  concrete tables.

  Floating-point numbers are idealised as rationals: \<open>max\<close> and \<open>min\<close> are exact on floats,
  \<open>mean\<close> is the exact quotient here and the rounded one in Python.
\<close>

subsection \<open>Cells, tables and errors\<close>

datatype error =
    FileNotFoundError
  | EmptyDataError
  | ParserError
  | KeyError
  | TypeError
  | ValueError

text \<open>
  One value of a DataFrame: a missing value (\<open>NaN\<close>, also standing for \<open>NaT\<close>), a number, a
  Python \<open>str\<close>, or a parsed \<open>Timestamp\<close> (nanoseconds since the epoch).
\<close>

datatype cell = NaN | Num rat | Str string | Ts int

text \<open>
  A DataFrame with the default \<open>RangeIndex\<close> \<open>0 .. nrows - 1\<close>: \<open>read_csv\<close> and
  \<open>concat(\<dots>, ignore_index=True)\<close> produce no other row index, and no method of \<open>Reader\<close>
  sets one. The columns are kept in order, each with its name.
\<close>

record frame =
  nrows :: nat
  cols :: "(string \<times> cell list) list"

definition columns :: "frame \<Rightarrow> string list" where
  "columns d = map fst (cols d)"


text \<open>\<open>df[name]\<close>: the column, or \<open>KeyError\<close>.\<close>

definition get_col :: "frame \<Rightarrow> string \<Rightarrow> error + cell list" where
  "get_col d name = (case map_of (cols d) name of None \<Rightarrow> Inl KeyError | Some c \<Rightarrow> Inr c)"

text \<open>\<open>df[name] = c\<close>: replaces the column where it stands, or appends a new last column.\<close>

definition set_col :: "frame \<Rightarrow> string \<Rightarrow> cell list \<Rightarrow> frame" where
  "set_col d name c =
     (if name \<in> set (columns d)
      then d\<lparr>cols := map (\<lambda>(n, x). if n = name then (n, c) else (n, x)) (cols d)\<rparr>
      else d\<lparr>cols := cols d @ [(name, c)]\<rparr>)"

text \<open>
  The order pandas sorts group keys and pivot labels in: within one type the order of the
  values (strings by code point); between types numbers, then timestamps, then strings,
  missing values last.
\<close>

fun cell_key :: "cell \<Rightarrow> nat \<times> rat \<times> string" where
  "cell_key (Num r) = (0, r, [])"
| "cell_key (Ts t) = (1, of_int t, [])"
| "cell_key (Str s) = (2, 0, s)"
| "cell_key NaN = (3, 0, [])"

definition sorted_unique :: "cell list \<Rightarrow> cell list" where
  "sorted_unique xs = sort_key cell_key (remdups xs)"

subsection \<open>The value-level behaviour of pandas, as a parameter\<close>

record pandas =
  str_to_float :: "string \<Rightarrow> rat option"
    \<comment> \<open>\<open>pd.to_numeric\<close> on one \<open>str\<close>; \<open>None\<close> when it does not parse\<close>
  str_to_datetime :: "string \<Rightarrow> int option"
    \<comment> \<open>\<open>pd.to_datetime\<close> on one \<open>str\<close>; \<open>None\<close> when it does not parse\<close>
  str_slice_bound :: "bool \<Rightarrow> string \<Rightarrow> int option"
    \<comment> \<open>the instant a \<open>str\<close> slice bound on a \<open>DatetimeIndex\<close> is cast to; \<open>True\<close> for the
        upper side (a date of reduced resolution is widened to the end of its period)\<close>
  range_slice :: "nat \<Rightarrow> cell option \<Rightarrow> cell option \<Rightarrow> error + nat \<times> nat"
    \<comment> \<open>label slice \<open>a:b\<close> on \<open>RangeIndex(n)\<close>: the positions \<open>[start, stop)\<close>, or the error\<close>
  csv_field :: "cell \<Rightarrow> string"
    \<comment> \<open>the text \<open>to_csv\<close> writes for one value\<close>
  csv_infer :: "string list \<Rightarrow> cell list"
    \<comment> \<open>the typed column \<open>read_csv\<close> makes of the text fields of one column\<close>

subsection \<open>Coercions\<close>

text \<open>\<open>pd.to_numeric(col, errors='coerce')\<close>: what does not parse becomes \<open>NaN\<close>.\<close>

fun to_numeric_cell :: "pandas \<Rightarrow> cell \<Rightarrow> cell" where
  "to_numeric_cell P (Num r) = Num r"
| "to_numeric_cell P (Str s) = (case str_to_float P s of Some r \<Rightarrow> Num r | None \<Rightarrow> NaN)"
| "to_numeric_cell P NaN = NaN"
| "to_numeric_cell P (Ts t) = Num (of_int t)"

definition to_numeric_coerce :: "pandas \<Rightarrow> cell list \<Rightarrow> cell list" where
  "to_numeric_coerce P col = map (to_numeric_cell P) col"

text \<open>\<open>col.fillna(v)\<close>.\<close>

definition fillna :: "cell \<Rightarrow> cell list \<Rightarrow> cell list" where
  "fillna v col = map (\<lambda>c. if c = NaN then v else c) col"

text \<open>
  \<open>col.astype('float')\<close>, on a column of numbers without missing values (the only columns
  the source applies it to, see \<open>coerce_tide_eq\<close>): integers become floats of the same
  value, and both are \<open>Num\<close> here.
\<close>

definition astype_float :: "cell list \<Rightarrow> cell list" where
  "astype_float col = col"

definition coerce_tide :: "pandas \<Rightarrow> cell list \<Rightarrow> cell list" where
  "coerce_tide P col = astype_float (fillna (Num 0) (to_numeric_coerce P col))"

text \<open>
  \<open>pd.to_datetime(col)\<close>: raises \<open>ValueError\<close> on a string that is no date; numbers are
  nanoseconds since the epoch; missing values stay missing (\<open>NaT\<close>).
\<close>

fun to_datetime_cell :: "pandas \<Rightarrow> cell \<Rightarrow> error + cell" where
  "to_datetime_cell P (Ts t) = Inr (Ts t)"
| "to_datetime_cell P (Str s) =
     (case str_to_datetime P s of Some t \<Rightarrow> Inr (Ts t) | None \<Rightarrow> Inl ValueError)"
| "to_datetime_cell P NaN = Inr NaN"
| "to_datetime_cell P (Num r) = Inr (Ts \<lfloor>r\<rfloor>)"

fun to_datetime :: "pandas \<Rightarrow> cell list \<Rightarrow> error + cell list" where
  "to_datetime P [] = Inr []"
| "to_datetime P (c # cs) =
     (case to_datetime_cell P c of
        Inl e \<Rightarrow> Inl e
      | Inr x \<Rightarrow> (case to_datetime P cs of Inl e \<Rightarrow> Inl e | Inr xs \<Rightarrow> Inr (x # xs)))"

subsection \<open>Row slicing, grouping and the aggregates of a column\<close>

definition take_rows :: "nat \<Rightarrow> nat \<Rightarrow> frame \<Rightarrow> frame" where
  "take_rows start stop d =
     \<lparr>nrows = min stop (nrows d) - start,
      cols = map (\<lambda>(n, c). (n, take (stop - start) (drop start c))) (cols d)\<rparr>"

text \<open>
  \<open>df.loc[a:b, :]\<close> on a frame with the default row index: the slice \<open>None:None\<close> is every
  row; with a bound the labels are looked up in the \<open>RangeIndex\<close>.
\<close>

definition loc_rows :: "pandas \<Rightarrow> frame \<Rightarrow> cell option \<Rightarrow> cell option \<Rightarrow> error + frame" where
  "loc_rows P d a b =
     (if a = None \<and> b = None then Inr d
      else case range_slice P (nrows d) a b of
             Inl e \<Rightarrow> Inl e
           | Inr (start, stop) \<Rightarrow> Inr (take_rows start stop d))"

fun nums :: "cell list \<Rightarrow> rat list" where
  "nums [] = []"
| "nums (Num r # cs) = r # nums cs"
| "nums (c # cs) = nums cs"

text \<open>\<open>col.max()\<close>, \<open>col.min()\<close>, \<open>col.mean()\<close> of a numeric column: missing values are skipped.\<close>

definition series_max :: "cell list \<Rightarrow> cell" where
  "series_max col = (case nums col of [] \<Rightarrow> NaN | x # xs \<Rightarrow> Num (fold max xs x))"

definition series_min :: "cell list \<Rightarrow> cell" where
  "series_min col = (case nums col of [] \<Rightarrow> NaN | x # xs \<Rightarrow> Num (fold min xs x))"

definition series_mean :: "cell list \<Rightarrow> cell" where
  "series_mean col =
     (case nums col of [] \<Rightarrow> NaN | x # xs \<Rightarrow> Num (sum_list (x # xs) / of_nat (length (x # xs))))"

text \<open>The rows of \<open>d\<close> whose key (the parallel list \<open>ks\<close>) is \<open>k\<close>.\<close>

definition rows_where :: "cell list \<Rightarrow> cell \<Rightarrow> 'a list \<Rightarrow> 'a list" where
  "rows_where ks k c = map snd (filter (\<lambda>p. fst p = k) (zip ks c))"

definition group :: "frame \<Rightarrow> cell list \<Rightarrow> cell \<Rightarrow> frame" where
  "group d ks k =
     \<lparr>nrows = length (filter (\<lambda>x. x = k) ks),
      cols = map (\<lambda>(n, c). (n, rows_where ks k c)) (cols d)\<rparr>"

fun apply_groups :: "(frame \<Rightarrow> error + cell) \<Rightarrow> frame \<Rightarrow> cell list \<Rightarrow> cell list
    \<Rightarrow> error + (cell \<times> cell) list" where
  "apply_groups f d ks [] = Inr []"
| "apply_groups f d ks (k # rest) =
     (case f (group d ks k) of
        Inl e \<Rightarrow> Inl e
      | Inr v \<Rightarrow> (case apply_groups f d ks rest of
                   Inl e \<Rightarrow> Inl e
                 | Inr vs \<Rightarrow> Inr ((k, v) # vs)))"

text \<open>
  \<open>df.groupby(by).apply(f)\<close>: one entry per distinct key, in sorted order; rows whose key is
  missing belong to no group. The result is a Series indexed by the keys.
\<close>

definition groupby_apply :: "frame \<Rightarrow> string \<Rightarrow> (frame \<Rightarrow> error + cell)
    \<Rightarrow> error + (cell \<times> cell) list" where
  "groupby_apply d by f =
     (case get_col d by of
        Inl e \<Rightarrow> Inl e
      | Inr ks \<Rightarrow> apply_groups f d ks (sorted_unique (filter (\<lambda>k. k \<noteq> NaN) ks)))"

subsection \<open>The class \<open>Reader\<close>\<close>

record reader =
  filename :: string
  data :: frame

type_synonym 'a answer = "(error + 'a) \<times> reader"

text \<open>
  The first two statements of \<open>max_tides\<close>, \<open>min_tides\<close> and \<open>mean_tides\<close> (lines 102-103,
  137-138, 171-172) and the third and fourth (104-105, 139-140, 173-174), which differ
  only in the aggregate \<open>agg\<close> that the lambda applies to \<open>df.tideValue\<close>:

  \<^verbatim>\<open>self.data['tideValue'] = pd.to_numeric(self.data['tideValue'], errors='coerce').fillna(0).astype('float')\<close>
  \<^verbatim>\<open>self.data['dateTime'] = pd.to_datetime(self.data['dateTime'])\<close>
  \<^verbatim>\<open>df = self.data.loc[time_from: time_to, :]\<close>
  \<^verbatim>\<open>df = self.data.groupby('stationName').apply(lambda df: df.tideValue.agg())\<close>
  \<^verbatim>\<open>return df\<close>

  The slice of line 104 is bound to \<open>df\<close> and overwritten by line 105, which groups
  \<open>self.data\<close>: only an exception of the slice is seen.
\<close>

definition tides_by :: "(cell list \<Rightarrow> cell) \<Rightarrow> pandas \<Rightarrow> reader \<Rightarrow> cell option \<Rightarrow> cell option
    \<Rightarrow> (cell \<times> cell) list answer" where
  "tides_by agg P self time_from time_to =
     (case get_col (data self) ''tideValue'' of
        Inl e \<Rightarrow> (Inl e, self)
      | Inr tv \<Rightarrow>
          let self1 = self\<lparr>data := set_col (data self) ''tideValue'' (coerce_tide P tv)\<rparr> in
          (case get_col (data self1) ''dateTime'' of
             Inl e \<Rightarrow> (Inl e, self1)
           | Inr dt \<Rightarrow>
               (case to_datetime P dt of
                  Inl e \<Rightarrow> (Inl e, self1)
                | Inr dt' \<Rightarrow>
                    let self2 = self1\<lparr>data := set_col (data self1) ''dateTime'' dt'\<rparr> in
                    (case loc_rows P (data self2) time_from time_to of
                       Inl e \<Rightarrow> (Inl e, self2)
                     | Inr df \<Rightarrow>
                         (groupby_apply (data self2) ''stationName''
                            (\<lambda>df. case get_col df ''tideValue'' of
                                     Inl e \<Rightarrow> Inl e
                                   | Inr c \<Rightarrow> Inr (agg c)),
                          self2)))))"

definition max_tides :: "pandas \<Rightarrow> reader \<Rightarrow> cell option \<Rightarrow> cell option
    \<Rightarrow> (cell \<times> cell) list answer" where
  "max_tides = tides_by series_max"

definition min_tides :: "pandas \<Rightarrow> reader \<Rightarrow> cell option \<Rightarrow> cell option
    \<Rightarrow> (cell \<times> cell) list answer" where
  "min_tides = tides_by series_min"

definition mean_tides :: "pandas \<Rightarrow> reader \<Rightarrow> cell option \<Rightarrow> cell option
    \<Rightarrow> (cell \<times> cell) list answer" where
  "mean_tides = tides_by series_mean"

subsection \<open>Pivoting and slicing by label\<close>

text \<open>
  The result of \<open>df.pivot(\<dots>)\<close>: the row labels, the column labels, and one row of values
  per row label.
\<close>

record pivot_table =
  pindex :: "cell list"
  pcolumns :: "cell list"
  pvalues :: "cell list list"

text \<open>
  \<open>df.pivot(index=i, columns=c, values=v)\<close>: a missing column is a \<open>KeyError\<close>; two rows with
  the same pair of labels are a \<open>ValueError\<close> ("Index contains duplicate entries, cannot
  reshape"); otherwise the labels are sorted and made unique, and a pair of labels with no
  row holds \<open>NaN\<close>.
\<close>

definition pivot :: "frame \<Rightarrow> string \<Rightarrow> string \<Rightarrow> string \<Rightarrow> error + pivot_table" where
  "pivot d i c v =
     (case get_col d i of
        Inl e \<Rightarrow> Inl e
      | Inr ix \<Rightarrow>
          (case get_col d c of
             Inl e \<Rightarrow> Inl e
           | Inr cl \<Rightarrow>
               (case get_col d v of
                  Inl e \<Rightarrow> Inl e
                | Inr vl \<Rightarrow>
                    if \<not> distinct (zip ix cl) then Inl ValueError
                    else Inr \<lparr>pindex = sorted_unique ix,
                              pcolumns = sorted_unique cl,
                              pvalues =
                                map (\<lambda>t. map (\<lambda>s. case map_of (zip (zip ix cl) vl) (t, s) of
                                                     None \<Rightarrow> NaN
                                                   | Some x \<Rightarrow> x)
                                             (sorted_unique cl))
                                    (sorted_unique ix)\<rparr>)))"


definition pivot_col :: "pivot_table \<Rightarrow> cell \<Rightarrow> error + cell list" where
  "pivot_col df s =
     (if s \<in> set (pcolumns df)
      then Inr (map (\<lambda>row. case map_of (zip (pcolumns df) row) s of None \<Rightarrow> NaN | Some x \<Rightarrow> x)
                    (pvalues df))
      else Inl KeyError)"

text \<open>
  The kind of a row index decides how a slice bound is read. A column of timestamps gives
  a \<open>DatetimeIndex\<close>, a column of numbers a numeric index, anything else an index of
  objects (an empty column counts as timestamps here).
\<close>

datatype index_kind = DatetimeIndex | NumericIndex | ObjectIndex

fun is_time :: "cell \<Rightarrow> bool" where
  "is_time (Ts t) = True"
| "is_time NaN = True"
| "is_time c = False"

fun is_number :: "cell \<Rightarrow> bool" where
  "is_number (Num r) = True"
| "is_number NaN = True"
| "is_number c = False"

definition kind_of :: "cell list \<Rightarrow> index_kind" where
  "kind_of ix =
     (if list_all is_time ix then DatetimeIndex
      else if list_all is_number ix then NumericIndex
      else ObjectIndex)"

text \<open>
  A slice bound is cast to the type of the labels: on a \<open>DatetimeIndex\<close> a \<open>Timestamp\<close> is
  taken as it is and a \<open>str\<close> is parsed; a bound of another type is a \<open>TypeError\<close>.
\<close>

fun cast_bound :: "pandas \<Rightarrow> index_kind \<Rightarrow> bool \<Rightarrow> cell \<Rightarrow> error + cell" where
  "cast_bound P DatetimeIndex upper (Ts t) = Inr (Ts t)"
| "cast_bound P DatetimeIndex upper (Str s) =
     (case str_slice_bound P upper s of Some t \<Rightarrow> Inr (Ts t) | None \<Rightarrow> Inl TypeError)"
| "cast_bound P DatetimeIndex upper c = Inl TypeError"
| "cast_bound P NumericIndex upper (Num r) = Inr (Num r)"
| "cast_bound P NumericIndex upper c = Inl TypeError"
| "cast_bound P ObjectIndex upper (Str s) = Inr (Str s)"
| "cast_bound P ObjectIndex upper c = Inl TypeError"

fun cast_opt :: "pandas \<Rightarrow> index_kind \<Rightarrow> bool \<Rightarrow> cell option \<Rightarrow> error + cell option" where
  "cast_opt P k upper None = Inr None"
| "cast_opt P k upper (Some b) =
     (case cast_bound P k upper b of Inl e \<Rightarrow> Inl e | Inr b' \<Rightarrow> Inr (Some b'))"

text \<open>The order of two labels of one type; a missing label is comparable to nothing.\<close>

fun cell_le :: "cell \<Rightarrow> cell \<Rightarrow> bool" where
  "cell_le (Num a) (Num b) = (a \<le> b)"
| "cell_le (Ts a) (Ts b) = (a \<le> b)"
| "cell_le (Str a) (Str b) = (a \<le> b)"
| "cell_le a b = False"

definition in_window :: "cell option \<Rightarrow> cell option \<Rightarrow> cell \<Rightarrow> bool" where
  "in_window lo hi t \<longleftrightarrow>
     (case lo of None \<Rightarrow> True | Some a \<Rightarrow> cell_le a t) \<and>
     (case hi of None \<Rightarrow> True | Some b \<Rightarrow> cell_le t b)"

text \<open>
  \<open>df.loc[a:b, :]\<close> on a pivoted table, whose labels are sorted and unique: the rows whose
  label lies between the bounds, both included; \<open>None\<close> is no bound.
\<close>

definition loc_index :: "pandas \<Rightarrow> pivot_table \<Rightarrow> cell option \<Rightarrow> cell option
    \<Rightarrow> error + pivot_table" where
  "loc_index P df a b =
     (case cast_opt P (kind_of (pindex df)) False a of
        Inl e \<Rightarrow> Inl e
      | Inr lo \<Rightarrow>
          (case cast_opt P (kind_of (pindex df)) True b of
             Inl e \<Rightarrow> Inl e
           | Inr hi \<Rightarrow>
               let keep = filter (\<lambda>p. in_window lo hi (fst p)) (zip (pindex df) (pvalues df))
               in Inr \<lparr>pindex = map fst keep, pcolumns = pcolumns df, pvalues = map snd keep\<rparr>))"

subsection \<open>The query methods that pivot\<close>

text \<open>
  \<open>station_tides\<close>, lines 69-72. The argument \<open>station_name\<close> occurs in no statement of
  the body.

  \<^verbatim>\<open>self.data['dateTime'] = pd.to_datetime(self.data['dateTime'])\<close>
  \<^verbatim>\<open>df = self.data.pivot(index = 'dateTime', columns = 'stationName', values = 'tideValue')\<close>
  \<^verbatim>\<open>sta_tid = df.loc[time_from:time_to, :]\<close>
  \<^verbatim>\<open>return sta_tid\<close>
\<close>

definition station_tides :: "pandas \<Rightarrow> reader \<Rightarrow> string list \<Rightarrow> cell option \<Rightarrow> cell option
    \<Rightarrow> pivot_table answer" where
  "station_tides P self station_name time_from time_to =
     (case get_col (data self) ''dateTime'' of
        Inl e \<Rightarrow> (Inl e, self)
      | Inr dt \<Rightarrow>
          (case to_datetime P dt of
             Inl e \<Rightarrow> (Inl e, self)
           | Inr dt' \<Rightarrow>
               let self1 = self\<lparr>data := set_col (data self) ''dateTime'' dt'\<rparr> in
               (case pivot (data self1) ''dateTime'' ''stationName'' ''tideValue'' of
                  Inl e \<Rightarrow> (Inl e, self1)
                | Inr df \<Rightarrow> (loc_index P df time_from time_to, self1))))"

text \<open>
  What \<open>station_graph\<close> hands to matplotlib: the plotted series and the labels set on the
  figure. Rendering is outside the model.
\<close>

record figure =
  plot_x :: "cell list"
  plot_y :: "cell list"
  xlabel :: string
  ylabel :: string
  title :: string
  xticks_rotation :: nat

text \<open>
  \<open>station_graph\<close>, lines 200-209. The column \<open>dateTime\<close> is not parsed here.

  \<^verbatim>\<open>self.data['tideValue'] = pd.to_numeric(self.data['tideValue'], errors='coerce').fillna(0).astype('float')\<close>
  \<^verbatim>\<open>df = self.data.pivot(index = 'dateTime', columns = 'stationName', values = 'tideValue')\<close>
  \<^verbatim>\<open>df1 = df.loc[time_from: time_to, :]\<close>
  \<^verbatim>\<open>df1[station_name].plot()\<close>
\<close>

definition station_graph :: "pandas \<Rightarrow> reader \<Rightarrow> string \<Rightarrow> cell option \<Rightarrow> cell option
    \<Rightarrow> figure answer" where
  "station_graph P self station_name time_from time_to =
     (case get_col (data self) ''tideValue'' of
        Inl e \<Rightarrow> (Inl e, self)
      | Inr tv \<Rightarrow>
          let self1 = self\<lparr>data := set_col (data self) ''tideValue'' (coerce_tide P tv)\<rparr> in
          (case pivot (data self1) ''dateTime'' ''stationName'' ''tideValue'' of
             Inl e \<Rightarrow> (Inl e, self1)
           | Inr df \<Rightarrow>
               (case loc_index P df time_from time_to of
                  Inl e \<Rightarrow> (Inl e, self1)
                | Inr df1 \<Rightarrow>
                    (case pivot_col df1 (Str station_name) of
                       Inl e \<Rightarrow> (Inl e, self1)
                     | Inr col \<Rightarrow>
                         (Inr \<lparr>plot_x = pindex df1, plot_y = col,
                               xlabel = ''Time & Date'', ylabel = ''Tide Height(m)'',
                               title = station_name, xticks_rotation = 90\<rparr>,
                          self1)))))"

subsection \<open>Appending a reading\<close>

text \<open>\<open>pd.DataFrame({name: [values], \<dots>})\<close>.\<close>

definition DataFrame :: "(string \<times> cell list) list \<Rightarrow> frame" where
  "DataFrame kv = \<lparr>nrows = (case kv of [] \<Rightarrow> 0 | p # _ \<Rightarrow> length (snd p)), cols = kv\<rparr>"

definition col_or_nan :: "frame \<Rightarrow> string \<Rightarrow> cell list" where
  "col_or_nan d n = (case map_of (cols d) n of None \<Rightarrow> replicate (nrows d) NaN | Some c \<Rightarrow> c)"

text \<open>
  \<open>pd.concat([d1, d2], ignore_index=True)\<close>: the rows of \<open>d1\<close>, then those of \<open>d2\<close>, under a
  fresh \<open>RangeIndex\<close>; the columns of \<open>d1\<close>, then the new ones of \<open>d2\<close>; \<open>NaN\<close> where a frame
  has no such column.
\<close>

definition concat_ignore_index :: "frame \<Rightarrow> frame \<Rightarrow> frame" where
  "concat_ignore_index d1 d2 =
     \<lparr>nrows = nrows d1 + nrows d2,
      cols = map (\<lambda>n. (n, col_or_nan d1 n @ col_or_nan d2 n))
                 (columns d1 @ filter (\<lambda>n. n \<notin> set (columns d1)) (columns d2))\<rparr>"

text \<open>
  \<open>add_data\<close>, lines 233-239 (the second definition of that name in the class, which
  replaces the first, lines 210-231, whose body is the docstring alone). The method
  prints the concatenated frame and returns it; no statement assigns to \<open>self.data\<close>.

  \<^verbatim>\<open>df1 = self.data\<close>
  \<^verbatim>\<open>df2 = pd.DataFrame({'dateTime': [date_time], 'stationName': [station_name],'tideValue': [tide_value]})\<close>
  \<^verbatim>\<open>frame = [df1, df2]\<close>
  \<^verbatim>\<open>print(pd.concat(frame, ignore_index = True))\<close>
  \<^verbatim>\<open>return pd.concat(frame, ignore_index = True)\<close>
\<close>

definition add_data :: "reader \<Rightarrow> cell \<Rightarrow> cell \<Rightarrow> cell \<Rightarrow> frame \<times> reader" where
  "add_data self date_time station_name tide_value =
     (let df1 = data self;
          df2 = DataFrame [(''dateTime'', [date_time]),
                           (''stationName'', [station_name]),
                           (''tideValue'', [tide_value])]
      in (concat_ignore_index df1 df2, self))"

subsection \<open>Files: \<open>read_csv\<close>, \<open>to_csv\<close>, construction and export\<close>

text \<open>
  A CSV file is kept as its header and its rows of text fields: separators, quoting and
  line ends are the codec's own business. The file system maps a path to the file there;
  a path that is missing or cannot be read maps to \<open>None\<close>.
\<close>

record csv =
  header :: "string list"
  body :: "string list list"

type_synonym files = "string \<Rightarrow> csv option"

definition digit_char :: "nat \<Rightarrow> char" where
  "digit_char d = char_of (48 + d)"

function show_nat :: "nat \<Rightarrow> string" where
  "show_nat n = (if n < 10 then [digit_char n] else show_nat (n div 10) @ [digit_char (n mod 10)])"
  by pat_completeness auto
termination
  by (relation "measure id") auto

declare show_nat.simps [simp del]


definition field_at :: "string list \<Rightarrow> nat \<Rightarrow> string" where
  "field_at row j = (if j < length row then row ! j else [])"


text \<open>
  The column names \<open>read_csv\<close> makes of a header: an empty field at position \<open>j\<close> is named
  \<open>Unnamed: j\<close>, and a name seen \<open>k\<close> times before gets the suffix \<open>.k\<close>.
\<close>

definition unnamed :: "string list \<Rightarrow> string list" where
  "unnamed h = map (\<lambda>p. if snd p = [] then ''Unnamed: '' @ show_nat (fst p) else snd p)
                   (zip [0..<length h] h)"

fun mangle_dupes :: "string list \<Rightarrow> string list \<Rightarrow> string list" where
  "mangle_dupes seen [] = []"
| "mangle_dupes seen (n # ns) =
     (if n \<in> set seen then n @ ''.'' @ show_nat (count_list seen n) else n)
     # mangle_dupes (seen @ [n]) ns"

text \<open>
  \<open>pd.read_csv(path)\<close> with its default arguments (no \<open>index_col\<close>, no \<open>usecols\<close>): every
  column of the file becomes a column of the frame, whatever its name; the row index is
  the default one. A file without a header is an \<open>EmptyDataError\<close>, a row longer than the
  header a \<open>ParserError\<close>, a shorter row is filled with missing values.
\<close>

definition read_csv :: "pandas \<Rightarrow> csv \<Rightarrow> error + frame" where
  "read_csv P f =
     (if header f = [] then Inl EmptyDataError
      else if list_ex (\<lambda>row. length (header f) < length row) (body f) then Inl ParserError
      else Inr \<lparr>nrows = length (body f),
                cols = map (\<lambda>p. (snd p, csv_infer P (map (\<lambda>row. field_at row (fst p)) (body f))))
                           (zip [0..<length (header f)]
                                (mangle_dupes [] (unnamed (header f))))\<rparr>)"

text \<open>
  \<open>Reader.__init__\<close>, lines 34-35:

  \<^verbatim>\<open>self.filename = filename\<close>
  \<^verbatim>\<open>self.data = pd.read_csv(filename)\<close>
\<close>

definition Reader_init :: "pandas \<Rightarrow> files \<Rightarrow> string \<Rightarrow> error + reader" where
  "Reader_init P fs fname =
     (case fs fname of
        None \<Rightarrow> Inl FileNotFoundError
      | Some f \<Rightarrow>
          (case read_csv P f of
             Inl e \<Rightarrow> Inl e
           | Inr d \<Rightarrow> Inr \<lparr>filename = fname, data = d\<rparr>))"



subsection \<open>A reference instance of the value-level behaviour\<close>

text \<open>
  \<open>pd\<close> reads decimal numbers (\<open>-12.5\<close>) and timestamps of the form
  \<open>2021-09-20T02:00:00Z\<close>, as the tide file holds them, writes what it reads, and slices
  the default row index by numeric labels, refusing a \<open>str\<close> or a \<open>Timestamp\<close> there with
  the \<open>TypeError\<close> of pandas ("cannot do slice indexing on RangeIndex with these
  indexers"). It serves to run the methods on concrete tables.
\<close>

definition digit_val :: "char \<Rightarrow> nat option" where
  "digit_val c = (let n = (of_char c :: nat) in if 48 \<le> n \<and> n \<le> 57 then Some (n - 48) else None)"

fun digits_val :: "string \<Rightarrow> nat \<Rightarrow> nat option" where
  "digits_val [] acc = Some acc"
| "digits_val (c # cs) acc =
     (case digit_val c of None \<Rightarrow> None | Some d \<Rightarrow> digits_val cs (10 * acc + d))"

definition parse_nat :: "string \<Rightarrow> nat option" where
  "parse_nat s = (if s = [] then None else digits_val s 0)"

definition parse_unsigned :: "string \<Rightarrow> rat option" where
  "parse_unsigned s =
     (let ip = takeWhile (\<lambda>c. c \<noteq> CHR ''.'') s; rest = dropWhile (\<lambda>c. c \<noteq> CHR ''.'') s in
      case parse_nat ip of
        None \<Rightarrow> None
      | Some i \<Rightarrow>
          (case rest of
             [] \<Rightarrow> Some (of_nat i)
           | dot # fp \<Rightarrow>
               (case parse_nat fp of
                  None \<Rightarrow> None
                | Some f \<Rightarrow> Some (of_nat i + of_nat f / 10 ^ length fp))))"

definition parse_decimal :: "string \<Rightarrow> rat option" where
  "parse_decimal s =
     (case s of
        [] \<Rightarrow> None
      | c # t \<Rightarrow> if c = CHR ''-'' then map_option uminus (parse_unsigned t) else parse_unsigned s)"

definition days_from_civil :: "int \<Rightarrow> int \<Rightarrow> int \<Rightarrow> int" where
  "days_from_civil y m d =
     (let y' = (if m \<le> 2 then y - 1 else y);
          era = y' div 400;
          yoe = y' - era * 400;
          mp = (if m > 2 then m - 3 else m + 9);
          doy = (153 * mp + 2) div 5 + d - 1;
          doe = yoe * 365 + yoe div 4 - yoe div 100 + doy
      in era * 146097 + doe - 719468)"

definition civil_from_days :: "int \<Rightarrow> int \<times> int \<times> int" where
  "civil_from_days z0 =
     (let z = z0 + 719468;
          era = z div 146097;
          doe = z - era * 146097;
          yoe = (doe - doe div 1460 + doe div 36524 - doe div 146096) div 365;
          doy = doe - (365 * yoe + yoe div 4 - yoe div 100);
          mp = (5 * doy + 2) div 153;
          d = doy - (153 * mp + 2) div 5 + 1;
          m = (if mp < 10 then mp + 3 else mp - 9);
          y = yoe + era * 400
      in (if m \<le> 2 then y + 1 else y, m, d))"

definition parse_iso :: "string \<Rightarrow> int option" where
  "parse_iso s =
     (if length s = 20 \<and> s ! 4 = CHR ''-'' \<and> s ! 7 = CHR ''-'' \<and> s ! 10 = CHR ''T''
         \<and> s ! 13 = CHR '':'' \<and> s ! 16 = CHR '':'' \<and> s ! 19 = CHR ''Z''
      then
        (case (parse_nat (take 4 s), parse_nat (take 2 (drop 5 s)), parse_nat (take 2 (drop 8 s)),
               parse_nat (take 2 (drop 11 s)), parse_nat (take 2 (drop 14 s)),
               parse_nat (take 2 (drop 17 s))) of
           (Some y, Some m, Some d, Some h, Some mi, Some sec) \<Rightarrow>
             if 1 \<le> m \<and> m \<le> 12 \<and> 1 \<le> d \<and> d \<le> 31 \<and> h < 24 \<and> mi < 60 \<and> sec < 60
             then Some ((((days_from_civil (int y) (int m) (int d) * 24 + int h) * 60 + int mi) * 60
                         + int sec) * 1000000000)
             else None
         | _ \<Rightarrow> None)
      else None)"

definition pad :: "nat \<Rightarrow> string \<Rightarrow> string" where
  "pad w s = replicate (w - length s) (CHR ''0'') @ s"

definition show_iso :: "int \<Rightarrow> string" where
  "show_iso t =
     (let secs = t div 1000000000;
          days = secs div 86400;
          rest = secs mod 86400;
          ymd = civil_from_days days
      in pad 4 (show_nat (nat (fst ymd))) @ ''-'' @ pad 2 (show_nat (nat (fst (snd ymd))))
         @ ''-'' @ pad 2 (show_nat (nat (snd (snd ymd))))
         @ ''T'' @ pad 2 (show_nat (nat (rest div 3600)))
         @ '':'' @ pad 2 (show_nat (nat (rest mod 3600 div 60)))
         @ '':'' @ pad 2 (show_nat (nat (rest mod 60))) @ ''Z'')"

definition int_range_slice :: "nat \<Rightarrow> cell option \<Rightarrow> cell option \<Rightarrow> error + nat \<times> nat" where
  "int_range_slice n a b =
     (let numeric = (\<lambda>x. case x of None \<Rightarrow> True | Some (Num r) \<Rightarrow> True | Some c \<Rightarrow> False) in
      if \<not> numeric a \<or> \<not> numeric b then Inl TypeError
      else
        let start = (case a of Some (Num r) \<Rightarrow> min n (nat \<lceil>r\<rceil>) | _ \<Rightarrow> 0);
            stop = (case b of Some (Num r) \<Rightarrow> min n (nat (\<lfloor>r\<rfloor> + 1)) | _ \<Rightarrow> n)
        in Inr (start, max start stop))"

fun frac_digits :: "nat \<Rightarrow> rat \<Rightarrow> string" where
  "frac_digits 0 q = []"
| "frac_digits (Suc k) q =
     (if q = 0 then []
      else digit_char (nat \<lfloor>q * 10\<rfloor>) # frac_digits k (q * 10 - of_int \<lfloor>q * 10\<rfloor>))"

definition show_rat :: "rat \<Rightarrow> string" where
  "show_rat r =
     (let a = \<bar>r\<bar>; i = nat \<lfloor>a\<rfloor>; f = a - of_nat i in
      (if r < 0 then ''-'' else []) @ show_nat i
      @ (if f = 0 then [] else ''.'' @ frac_digits 17 f))"

definition na_values :: "string list" where
  "na_values = [[], ''#N/A'', ''#N/A N/A'', ''#NA'', ''-1.#IND'', ''-1.#QNAN'', ''-NaN'',
                ''-nan'', ''1.#IND'', ''1.#QNAN'', ''<NA>'', ''N/A'', ''NA'', ''NULL'', ''NaN'',
                ''None'', ''n/a'', ''nan'', ''null'']"

definition infer_column :: "string list \<Rightarrow> cell list" where
  "infer_column texts =
     (if list_all (\<lambda>x. x \<in> set na_values \<or> parse_decimal x \<noteq> None) texts
      then map (\<lambda>x. case parse_decimal x of None \<Rightarrow> NaN | Some r \<Rightarrow> Num r) texts
      else map (\<lambda>x. if x \<in> set na_values then NaN else Str x) texts)"

fun show_cell :: "cell \<Rightarrow> string" where
  "show_cell NaN = []"
| "show_cell (Str s) = s"
| "show_cell (Num r) = show_rat r"
| "show_cell (Ts t) = show_iso t"

definition pd :: pandas where
  "pd = \<lparr>str_to_float = parse_decimal,
         str_to_datetime = parse_iso,
         str_slice_bound = (\<lambda>upper. parse_iso),
         range_slice = int_range_slice,
         csv_field = show_cell,
         csv_infer = infer_column\<rparr>"



subsection \<open>The notions of the specification\<close>

text \<open>
  The coerced tide value of a cell, in the specification's words: the number it holds or
  parses to, and 0 when numeric coercion fails.
\<close>

definition coerced_value :: "pandas \<Rightarrow> cell \<Rightarrow> rat" where
  "coerced_value P c = (case to_numeric_cell P c of Num r \<Rightarrow> r | _ \<Rightarrow> 0)"

text \<open>
  The specification's \<open>Aggregate(kind, from, to)\<close>: the readings whose timestamp lies in
  \<open>[from, to]\<close>, as pairs of station and coerced height, and for each station present among
  them the aggregate of its heights.
\<close>

definition window_rows :: "pandas \<Rightarrow> frame \<Rightarrow> cell option \<Rightarrow> cell option \<Rightarrow> (cell \<times> rat) list" where
  "window_rows P d lo hi =
     (case (get_col d ''dateTime'', get_col d ''stationName'', get_col d ''tideValue'') of
        (Inr dt, Inr st, Inr tv) \<Rightarrow>
          (case to_datetime P dt of
             Inl e \<Rightarrow> []
           | Inr ts \<Rightarrow> map snd (filter (\<lambda>p. in_window lo hi (fst p))
                                     (zip ts (zip st (map (coerced_value P) tv)))))
      | _ \<Rightarrow> [])"

definition spec_aggregate :: "(rat list \<Rightarrow> rat) \<Rightarrow> pandas \<Rightarrow> frame \<Rightarrow> cell option \<Rightarrow> cell option
    \<Rightarrow> (cell \<times> cell) list" where
  "spec_aggregate agg P d lo hi =
     (let rows = window_rows P d lo hi
      in map (\<lambda>s. (s, Num (agg (map snd (filter (\<lambda>p. fst p = s) rows)))))
             (sorted_unique (map fst rows)))"

definition maximum :: "rat list \<Rightarrow> rat" where
  "maximum vs = Max (set vs)"

definition minimum :: "rat list \<Rightarrow> rat" where
  "minimum vs = Min (set vs)"

definition mean :: "rat list \<Rightarrow> rat" where
  "mean vs = sum_list vs / of_nat (length vs)"

text \<open>
  The stations of a table, in the order of the result, and the coerced heights of one
  station, in the order of the readings.
\<close>

definition stations :: "cell list \<Rightarrow> cell list" where
  "stations st = sorted_unique (filter (\<lambda>k. k \<noteq> NaN) st)"

definition station_values :: "pandas \<Rightarrow> cell list \<Rightarrow> cell list \<Rightarrow> cell \<Rightarrow> rat list" where
  "station_values P st tv k = rows_where st k (map (coerced_value P) tv)"

subsection \<open>Tables used to run the methods\<close>

definition table :: "cell list \<Rightarrow> cell list \<Rightarrow> cell list \<Rightarrow> reader" where
  "table dt st tv =
     \<lparr>filename = ''tideReadings.csv'',
      data = \<lparr>nrows = length dt,
              cols = [(''dateTime'', dt), (''stationName'', st), (''tideValue'', tv)]\<rparr>\<rparr>"

definition empty_table :: reader where
  "empty_table = table [] [] []"


text \<open>Station X with the heights 1.0, "bad", 3.0.\<close>

definition one_bad :: reader where
  "one_bad = table [Str ''2021-09-20T02:00:00Z'', Str ''2021-09-20T03:00:00Z'',
                    Str ''2021-09-20T04:00:00Z'']
                   [Str ''X'', Str ''X'', Str ''X'']
                   [Num 1, Str ''bad'', Num 3]"

text \<open>The scenario of the specification: Newlyn and Bangor at the same time.\<close>

definition newlyn_bangor :: reader where
  "newlyn_bangor = table [Str ''2021-09-20T02:00:00Z'', Str ''2021-09-20T02:00:00Z'']
                         [Str ''Newlyn'', Str ''Bangor'']
                         [Num (937 / 1000), Num (12 / 10)]"

text \<open>Two readings of Newlyn at the same time.\<close>

definition twice_newlyn :: reader where
  "twice_newlyn = table [Str ''2021-09-20T02:00:00Z'', Str ''2021-09-20T02:00:00Z'']
                        [Str ''Newlyn'', Str ''Newlyn'']
                        [Num (937 / 1000), Num (12 / 10)]"

text \<open>The value a pivoted table holds for a row label and a column label.\<close>

definition pivot_cell :: "cell list \<Rightarrow> cell list \<Rightarrow> cell list \<Rightarrow> cell \<Rightarrow> cell \<Rightarrow> cell" where
  "pivot_cell ix cl vl t s = (case map_of (zip (zip ix cl) vl) (t, s) of None \<Rightarrow> NaN | Some x \<Rightarrow> x)"



text \<open>A file system with one file, and a file with a station column alone.\<close>

definition one_file :: "string \<Rightarrow> csv \<Rightarrow> files" where
  "one_file name c = (\<lambda>p. if p = name then Some c else None)"

definition stations_only :: csv where
  "stations_only = \<lparr>header = [''stationName''], body = [[''Newlyn'']]\<rparr>"




section \<open>Properties\<close>

subsection \<open>Columns of a frame\<close>

lemma map_of_map_upd:
  "map_of (map (\<lambda>(n, x). if n = name then (n, c) else (n, x)) xs) m
     = (if m = name then (if name \<in> fst ` set xs then Some c else None) else map_of xs m)"
  by (induction xs) (auto simp: rev_image_eqI)

lemma get_col_set_col_same: "get_col (set_col d n c) n = Inr c"
proof (cases "n \<in> set (columns d)")
  case True
  then show ?thesis
    by (simp add: get_col_def set_col_def columns_def map_of_map_upd)
next
  case False
  then have "map_of (cols d) n = None"
    by (simp add: columns_def map_of_eq_None_iff)
  with False show ?thesis
    by (simp add: get_col_def set_col_def map_add_def)
qed

lemma get_col_set_col_other: "m \<noteq> n \<Longrightarrow> get_col (set_col d n c) m = get_col d m"
  by (auto simp: get_col_def set_col_def columns_def map_of_map_upd split: option.splits)




subsection \<open>The aggregates\<close>

lemma coerce_cell: "(if to_numeric_cell P c = NaN then Num 0 else to_numeric_cell P c) = Num (coerced_value P c)"
  by (cases c) (auto simp: coerced_value_def split: option.splits)

lemma coerce_tide_eq: "coerce_tide P tv = map (\<lambda>c. Num (coerced_value P c)) tv"
  by (simp add: coerce_tide_def astype_float_def fillna_def to_numeric_coerce_def coerce_cell)

lemma nums_map_Num: "nums (map (\<lambda>c. Num (f c)) cs) = map f cs"
  by (induction cs) auto

lemma rows_where_map: "rows_where ks k (map f c) = map f (rows_where ks k c)"
  by (simp add: rows_where_def zip_map2 filter_map o_def case_prod_beta)

lemma get_col_group: "get_col d n = Inr c \<Longrightarrow> get_col (group d ks k) n = Inr (rows_where ks k c)"
  by (auto simp: get_col_def group_def map_of_map split: option.splits)

lemma apply_groups_total:
  "(\<And>k. f (group d ks k) = Inr (g k)) \<Longrightarrow> apply_groups f d ks keys = Inr (map (\<lambda>k. (k, g k)) keys)"
  by (induction keys) auto

lemma tides_by_unbounded:
  assumes tv: "get_col (data r) ''tideValue'' = Inr tv"
    and dt: "get_col (data r) ''dateTime'' = Inr dt"
    and ts: "to_datetime P dt = Inr ts"
    and st: "get_col (data r) ''stationName'' = Inr st"
  shows "tides_by agg P r None None =
     (Inr (map (\<lambda>k. (k, agg (rows_where st k (coerce_tide P tv))))
               (sorted_unique (filter (\<lambda>k. k \<noteq> NaN) st))),
      r\<lparr>data := set_col (set_col (data r) ''tideValue'' (coerce_tide P tv)) ''dateTime'' ts\<rparr>)"
proof -
  let ?d1 = "set_col (data r) ''tideValue'' (coerce_tide P tv)"
  let ?d2 = "set_col ?d1 ''dateTime'' ts"
  have dt1: "get_col ?d1 ''dateTime'' = Inr dt"
    using dt by (simp add: get_col_set_col_other)
  have st2: "get_col ?d2 ''stationName'' = Inr st"
    using st by (simp add: get_col_set_col_other)
  have tv2: "get_col ?d2 ''tideValue'' = Inr (coerce_tide P tv)"
    by (simp add: get_col_set_col_other get_col_set_col_same)
  have grp: "apply_groups (\<lambda>df. case get_col df ''tideValue'' of Inl e \<Rightarrow> Inl e | Inr c \<Rightarrow> Inr (agg c))
               ?d2 st keys
             = Inr (map (\<lambda>k. (k, agg (rows_where st k (coerce_tide P tv)))) keys)" for keys
    by (rule apply_groups_total) (simp add: get_col_group [OF tv2])
  show ?thesis
    unfolding tides_by_def
    by (simp add: tv dt1 ts Let_def loc_rows_def groupby_apply_def st2 grp)
qed

lemma tides_by_window_ignored:
  "fst (tides_by agg P r a b) = Inr res \<Longrightarrow> tides_by agg P r None None = tides_by agg P r a b"
  unfolding tides_by_def
  by (auto simp: Let_def loc_rows_def split: sum.splits if_splits prod.splits)

lemma tides_by_window_error_or_all:
  "(\<exists>e. fst (tides_by agg P r a b) = Inl e) \<or> tides_by agg P r a b = tides_by agg P r None None"
  using tides_by_window_ignored [of agg P r a b] by (cases "fst (tides_by agg P r a b)") auto

lemma length_rows_where:
  "length ks = length c \<Longrightarrow> length (rows_where ks k c) = count_list ks k"
  by (induction ks c rule: list_induct2) (auto simp: rows_where_def)

lemma rows_where_nonempty:
  assumes "length ks = length c" "k \<in> set ks"
  shows "rows_where ks k c \<noteq> []"
proof -
  have "count_list ks k \<noteq> 0" using assms(2) by (simp add: count_list_0_iff)
  then show ?thesis using length_rows_where [OF assms(1), of k] by auto
qed

lemma set_stations: "set (stations st) = set st - {NaN}"
  by (auto simp: stations_def sorted_unique_def)

lemma series_max_Num: "vs \<noteq> [] \<Longrightarrow> series_max (map Num vs) = Num (maximum vs)"
  using nums_map_Num [of "\<lambda>x. x" vs]
  by (cases vs) (simp_all add: series_max_def maximum_def Max.set_eq_fold del: set_simps)

lemma series_min_Num: "vs \<noteq> [] \<Longrightarrow> series_min (map Num vs) = Num (minimum vs)"
  using nums_map_Num [of "\<lambda>x. x" vs]
  by (cases vs) (simp_all add: series_min_def minimum_def Min.set_eq_fold del: set_simps)

lemma series_mean_Num: "vs \<noteq> [] \<Longrightarrow> series_mean (map Num vs) = Num (mean vs)"
  using nums_map_Num [of "\<lambda>x. x" vs]
  by (cases vs) (simp_all add: series_mean_def mean_def)

lemma agg_station:
  assumes "length st = length tv" "k \<in> set st"
    and "\<And>vs. vs \<noteq> [] \<Longrightarrow> agg (map Num vs) = Num (f vs)"
  shows "agg (rows_where st k (coerce_tide P tv)) = Num (f (station_values P st tv k))"
proof -
  have ne: "station_values P st tv k \<noteq> []"
    unfolding station_values_def using assms(1,2) by (intro rows_where_nonempty) auto
  have "rows_where st k (coerce_tide P tv) = map Num (station_values P st tv k)"
    by (simp add: coerce_tide_eq station_values_def rows_where_map [symmetric] o_def)
  then show ?thesis using assms(3) [OF ne] by simp
qed

lemma tides_by_stations:
  assumes tv: "get_col (data r) ''tideValue'' = Inr tv"
    and dt: "get_col (data r) ''dateTime'' = Inr dt"
    and ts: "to_datetime P dt = Inr ts"
    and st: "get_col (data r) ''stationName'' = Inr st"
    and len: "length st = length tv"
    and agg: "\<And>vs. vs \<noteq> [] \<Longrightarrow> agg (map Num vs) = Num (f vs)"
  shows "fst (tides_by agg P r None None) =
           Inr (map (\<lambda>k. (k, Num (f (station_values P st tv k)))) (stations st))"
proof -
  have "map (\<lambda>k. (k, agg (rows_where st k (coerce_tide P tv)))) (stations st)
      = map (\<lambda>k. (k, Num (f (station_values P st tv k)))) (stations st)"
  proof (rule map_cong [OF refl])
    fix k assume "k \<in> set (stations st)"
    then have k: "k \<in> set st" by (simp add: set_stations)
    show "(k, agg (rows_where st k (coerce_tide P tv))) = (k, Num (f (station_values P st tv k)))"
      using agg_station [where agg = agg and f = f, OF len k] agg by simp
  qed
  then show ?thesis
    by (simp add: tides_by_unbounded [OF tv dt ts st] stations_def)
qed

text \<open>
  A call with a window either raises or is the call without a window: the slice of the
  third statement is never used.
\<close>

lemma max_tides_window_unused:
  "(\<exists>e. fst (max_tides P r a b) = Inl e) \<or> max_tides P r a b = max_tides P r None None"
  unfolding max_tides_def by (rule tides_by_window_error_or_all)

lemma min_tides_window_unused:
  "(\<exists>e. fst (min_tides P r a b) = Inl e) \<or> min_tides P r a b = min_tides P r None None"
  unfolding min_tides_def by (rule tides_by_window_error_or_all)

lemma mean_tides_window_unused:
  "(\<exists>e. fst (mean_tides P r a b) = Inl e) \<or> mean_tides P r a b = mean_tides P r None None"
  unfolding mean_tides_def by (rule tides_by_window_error_or_all)


text \<open>
  Claim C5. A height that fails numeric coercion counts as 0 in every aggregate; it is
  neither dropped nor an error. For a table with the three columns whose timestamps
  parse, \<open>max_tides\<close>, \<open>min_tides\<close> and \<open>mean_tides\<close> return, for each station of the table,
  the maximum, the minimum and the mean of the coerced heights of all its readings, where
  the coerced height of a cell that \<open>to_numeric\<close> cannot read is 0 and every reading of the
  station is counted.
\<close>

theorem failed_coercion_counts_as_zero:
  assumes "get_col (data r) ''tideValue'' = Inr tv"
    and "get_col (data r) ''dateTime'' = Inr dt"
    and "to_datetime P dt = Inr ts"
    and "get_col (data r) ''stationName'' = Inr st"
    and "length st = length tv"
  shows "fst (max_tides P r None None) =
           Inr (map (\<lambda>k. (k, Num (maximum (station_values P st tv k)))) (stations st))
       \<and> fst (min_tides P r None None) =
           Inr (map (\<lambda>k. (k, Num (minimum (station_values P st tv k)))) (stations st))
       \<and> fst (mean_tides P r None None) =
           Inr (map (\<lambda>k. (k, Num (mean (station_values P st tv k)))) (stations st))
       \<and> (\<forall>k. length (station_values P st tv k) = count_list st k)
       \<and> (\<forall>c. to_numeric_cell P c = NaN \<longrightarrow> coerced_value P c = 0)"
  unfolding max_tides_def min_tides_def mean_tides_def
  using assms
  by (simp add: tides_by_stations series_max_Num series_min_Num series_mean_Num
      station_values_def length_rows_where coerced_value_def)

lemma bad_is_no_number: "to_numeric_cell pd (Str ''bad'') = NaN"
  by code_simp

lemma one_bad_values:
  "stations [Str ''X'', Str ''X'', Str ''X''] = [Str ''X'']
   \<and> station_values pd [Str ''X'', Str ''X'', Str ''X''] [Num 1, Str ''bad'', Num 3] (Str ''X'')
       = [1, 0, 3]"
  by code_simp

text \<open>The example of the claim: the heights 1.0, "bad", 3.0 of station X.\<close>

theorem failed_coercion_counts_as_zero_witness:
  "to_numeric_cell pd (Str ''bad'') = NaN
   \<and> fst (max_tides pd one_bad None None) = Inr [(Str ''X'', Num 3)]
   \<and> fst (min_tides pd one_bad None None) = Inr [(Str ''X'', Num 0)]
   \<and> fst (mean_tides pd one_bad None None) = Inr [(Str ''X'', Num (4 / 3))]"
proof -
  let ?dt = "[Str ''2021-09-20T02:00:00Z'', Str ''2021-09-20T03:00:00Z'',
              Str ''2021-09-20T04:00:00Z'']"
  have ts: "to_datetime pd ?dt =
              Inr [Ts 1632103200000000000, Ts 1632106800000000000, Ts 1632110400000000000]"
    by code_simp
  have c: "get_col (data one_bad) ''tideValue'' = Inr [Num 1, Str ''bad'', Num 3]"
    "get_col (data one_bad) ''dateTime'' = Inr ?dt"
    "get_col (data one_bad) ''stationName'' = Inr [Str ''X'', Str ''X'', Str ''X'']"
    by (simp_all add: one_bad_def table_def get_col_def)
  have v: "maximum [1, 0, 3] = 3" "minimum [1, 0, 3] = 0" "mean [1, 0, 3] = 4 / 3"
    by (simp_all add: maximum_def minimum_def mean_def)
  show ?thesis
    using failed_coercion_counts_as_zero [OF c(1) c(2) ts c(3)] bad_is_no_number
    by (simp add: one_bad_values v del: to_numeric_cell.simps)
qed

text \<open>
  Claim C10. On the empty table (the three columns, no reading) \<open>max_tides\<close> without a
  window returns the empty mapping and raises nothing.
\<close>

theorem empty_table_max:
  assumes "get_col (data r) ''tideValue'' = Inr []"
    and "get_col (data r) ''dateTime'' = Inr []"
    and "get_col (data r) ''stationName'' = Inr []"
  shows "fst (max_tides P r None None) = Inr []"
  using assms by (simp add: max_tides_def tides_by_unbounded sorted_unique_def)

theorem empty_table_max_witness:
  "fst (max_tides pd empty_table None None) = Inr []"
  using empty_table_max [of empty_table pd]
  by (simp add: empty_table_def table_def get_col_def)

subsection \<open>Appending\<close>

text \<open>
  Claim C2. \<open>AddReading\<close> is to add one reading to the table of the \<open>Reader\<close>, so that later
  queries on that \<open>Reader\<close> see it. \<open>add_data\<close> returns a frame with one more row and
  leaves the \<open>Reader\<close> as it was: \<open>self.data\<close> keeps its rows, and every later query runs
  on the table without the reading.
\<close>

theorem add_data_keeps_self:
  "snd (add_data r t s v) = r \<and> nrows (fst (add_data r t s v)) = nrows (data r) + 1"
  by (simp add: add_data_def concat_ignore_index_def DataFrame_def Let_def)

subsection \<open>Pivoted series\<close>

lemma to_datetime_cell_is_time: "to_datetime_cell P c = Inr x \<Longrightarrow> is_time x"
  by (cases c) (auto split: option.splits)

lemma to_datetime_is_time: "to_datetime P dt = Inr ts \<Longrightarrow> list_all is_time ts"
  by (induction dt arbitrary: ts) (auto split: sum.splits dest: to_datetime_cell_is_time)

lemma to_datetime_length: "to_datetime P dt = Inr ts \<Longrightarrow> length ts = length dt"
  by (induction dt arbitrary: ts) (auto split: sum.splits)

lemma set_sorted_unique: "set (sorted_unique xs) = set xs"
  by (simp add: sorted_unique_def)

lemma kind_of_times: "list_all is_time ts \<Longrightarrow> kind_of (sorted_unique ts) = DatetimeIndex"
  by (simp add: kind_of_def list_all_iff set_sorted_unique)

lemma filter_zip_map:
  "filter (\<lambda>p. Q (fst p)) (zip xs (map f xs)) = zip (filter Q xs) (map f (filter Q xs))"
  by (induction xs) auto

lemma pivot_parsed:
  assumes dt: "get_col (data r) ''dateTime'' = Inr dt"
    and st: "get_col (data r) ''stationName'' = Inr st"
    and tv: "get_col (data r) ''tideValue'' = Inr tv"
  shows "pivot (set_col (data r) ''dateTime'' ts) ''dateTime'' ''stationName'' ''tideValue'' =
     (if \<not> distinct (zip ts st) then Inl ValueError
      else Inr \<lparr>pindex = sorted_unique ts, pcolumns = sorted_unique st,
                pvalues = map (\<lambda>t. map (pivot_cell ts st tv t) (sorted_unique st)) (sorted_unique ts)\<rparr>)"
  using st tv
  by (simp add: pivot_def get_col_set_col_same get_col_set_col_other pivot_cell_def [abs_def])

lemma loc_index_times:
  assumes "list_all is_time ts"
    and "cast_opt P DatetimeIndex False a = Inr lo"
    and "cast_opt P DatetimeIndex True b = Inr hi"
  shows "loc_index P \<lparr>pindex = sorted_unique ts, pcolumns = cs,
                       pvalues = map f (sorted_unique ts)\<rparr> a b
       = Inr \<lparr>pindex = filter (in_window lo hi) (sorted_unique ts), pcolumns = cs,
              pvalues = map f (filter (in_window lo hi) (sorted_unique ts))\<rparr>"
  using assms
  by (simp add: loc_index_def kind_of_times filter_zip_map Let_def)

lemma station_tides_result:
  assumes dt: "get_col (data r) ''dateTime'' = Inr dt"
    and ts: "to_datetime P dt = Inr ts"
    and st: "get_col (data r) ''stationName'' = Inr st"
    and tv: "get_col (data r) ''tideValue'' = Inr tv"
    and nodup: "distinct (zip ts st)"
    and lo: "cast_opt P DatetimeIndex False a = Inr lo"
    and hi: "cast_opt P DatetimeIndex True b = Inr hi"
  shows "station_tides P r S a b =
     (Inr \<lparr>pindex = filter (in_window lo hi) (sorted_unique ts),
           pcolumns = sorted_unique st,
           pvalues = map (\<lambda>t. map (pivot_cell ts st tv t) (sorted_unique st))
                         (filter (in_window lo hi) (sorted_unique ts))\<rparr>,
      r\<lparr>data := set_col (data r) ''dateTime'' ts\<rparr>)"
  unfolding station_tides_def
  using nodup
  by (simp add: dt ts Let_def pivot_parsed [OF dt st tv]
      loc_index_times [OF to_datetime_is_time [OF ts] lo hi])

lemma station_tides_duplicates:
  assumes dt: "get_col (data r) ''dateTime'' = Inr dt"
    and ts: "to_datetime P dt = Inr ts"
    and st: "get_col (data r) ''stationName'' = Inr st"
    and tv: "get_col (data r) ''tideValue'' = Inr tv"
    and dup: "\<not> distinct (zip ts st)"
  shows "station_tides P r S a b = (Inl ValueError, r\<lparr>data := set_col (data r) ''dateTime'' ts\<rparr>)"
  unfolding station_tides_def
  using dup by (simp add: dt ts Let_def pivot_parsed [OF dt st tv])











lemma station_tides_columns:
  assumes "fst (station_tides P r S a b) = Inr df" "get_col (data r) ''stationName'' = Inr st"
  shows "pcolumns df = sorted_unique st"
  using assms unfolding station_tides_def pivot_def loc_index_def
  by (auto simp: Let_def get_col_set_col_other split: sum.splits if_splits)

text \<open>
  Claim C4. The argument \<open>station_name\<close> of \<open>station_tides\<close> has no influence: two calls
  that differ in it alone return the same result and leave the same state, and the result
  has one column for every station of the table, requested or not.
\<close>

theorem station_name_unused:
  "station_tides P r s1 a b = station_tides P r s2 a b
   \<and> (\<forall>df st. fst (station_tides P r s1 a b) = Inr df \<and> get_col (data r) ''stationName'' = Inr st
        \<longrightarrow> pcolumns df = sorted_unique st)"
  using station_tides_columns [of P r s1 a b]
  by (auto simp: station_tides_def)

lemma newlyn_bangor_series:
  "fst (station_tides pd newlyn_bangor [''Newlyn''] None None) =
     Inr \<lparr>pindex = [Ts 1632103200000000000], pcolumns = [Str ''Bangor'', Str ''Newlyn''],
          pvalues = [[Num (6 / 5), Num (937 / 1000)]]\<rparr>"
  by code_simp

text \<open>The scenario of the specification: asked for Newlyn or for Bangor, both columns come back.\<close>

theorem station_name_unused_witness:
  "station_tides pd newlyn_bangor [''Newlyn''] None None
     = station_tides pd newlyn_bangor [''Bangor''] None None
   \<and> fst (station_tides pd newlyn_bangor [''Newlyn''] None None) =
       Inr \<lparr>pindex = [Ts 1632103200000000000], pcolumns = [Str ''Bangor'', Str ''Newlyn''],
            pvalues = [[Num (6 / 5), Num (937 / 1000)]]\<rparr>
   \<and> get_col (data newlyn_bangor) ''stationName'' = Inr [Str ''Newlyn'', Str ''Bangor'']
   \<and> [Str ''Bangor'', Str ''Newlyn''] = sorted_unique [Str ''Newlyn'', Str ''Bangor'']"
proof -
  have st: "get_col (data newlyn_bangor) ''stationName'' = Inr [Str ''Newlyn'', Str ''Bangor'']"
    by (simp add: newlyn_bangor_def table_def get_col_def)
  from station_name_unused [of pd newlyn_bangor "[''Newlyn'']" None None "[''Bangor'']"]
  have eq: "station_tides pd newlyn_bangor [''Newlyn''] None None
              = station_tides pd newlyn_bangor [''Bangor''] None None"
    and cl: "\<And>df st. fst (station_tides pd newlyn_bangor [''Newlyn''] None None) = Inr df \<Longrightarrow>
               get_col (data newlyn_bangor) ''stationName'' = Inr st \<Longrightarrow> pcolumns df = sorted_unique st"
    by blast+
  from cl [OF newlyn_bangor_series st] have "[Str ''Bangor'', Str ''Newlyn''] = sorted_unique [Str ''Newlyn'', Str ''Bangor'']"
    by simp
  with eq newlyn_bangor_series st show ?thesis by blast
qed

lemma station_tides_state:
  assumes dt: "get_col (data r) ''dateTime'' = Inr dt"
    and ts: "to_datetime P dt = Inr ts"
  shows "snd (station_tides P r S a b) = r\<lparr>data := set_col (data r) ''dateTime'' ts\<rparr>"
  unfolding station_tides_def
  by (simp add: dt ts Let_def split: sum.splits)

text \<open>
  Claim C7. On a table with the three columns whose timestamps parse: if two readings
  have the same timestamp and the same station, \<open>station_tides\<close> raises the \<open>ValueError\<close> of
  the pivot, whatever the window; if no two readings do, the pivot of the stored table
  succeeds and \<open>station_tides\<close> without bounds returns a series.
\<close>

theorem duplicate_reading_raises:
  assumes dt: "get_col (data r) ''dateTime'' = Inr dt"
    and ts: "to_datetime P dt = Inr ts"
    and st: "get_col (data r) ''stationName'' = Inr st"
    and tv: "get_col (data r) ''tideValue'' = Inr tv"
  shows "(\<not> distinct (zip ts st) \<longrightarrow> fst (station_tides P r S a b) = Inl ValueError)
       \<and> (distinct (zip ts st) \<longrightarrow>
            (\<exists>df. pivot (data (snd (station_tides P r S a b)))
                         ''dateTime'' ''stationName'' ''tideValue'' = Inr df)
            \<and> (\<exists>df. fst (station_tides P r S None None) = Inr df))"
proof (intro conjI impI)
  assume "\<not> distinct (zip ts st)"
  then show "fst (station_tides P r S a b) = Inl ValueError"
    by (simp add: station_tides_duplicates [OF dt ts st tv])
next
  assume d: "distinct (zip ts st)"
  then show "\<exists>df. pivot (data (snd (station_tides P r S a b)))
                         ''dateTime'' ''stationName'' ''tideValue'' = Inr df"
    by (simp add: station_tides_state [OF dt ts] pivot_parsed [OF dt st tv])
  have "cast_opt P DatetimeIndex False None = Inr None" "cast_opt P DatetimeIndex True None = Inr None"
    by simp_all
  from station_tides_result [OF dt ts st tv d this]
  show "\<exists>df. fst (station_tides P r S None None) = Inr df" by simp
qed

lemma same_instant_twice:
  "to_datetime pd [Str ''2021-09-20T02:00:00Z'', Str ''2021-09-20T02:00:00Z'']
     = Inr [Ts 1632103200000000000, Ts 1632103200000000000]"
  by code_simp

theorem duplicate_reading_raises_witness:
  "fst (station_tides pd twice_newlyn [''Newlyn''] None None) = Inl ValueError
   \<and> (\<exists>df. fst (station_tides pd newlyn_bangor [''Newlyn''] None None) = Inr df)"
proof -
  have c: "get_col (data twice_newlyn) ''dateTime'' = Inr [Str ''2021-09-20T02:00:00Z'', Str ''2021-09-20T02:00:00Z'']"
    "get_col (data twice_newlyn) ''stationName'' = Inr [Str ''Newlyn'', Str ''Newlyn'']"
    "get_col (data twice_newlyn) ''tideValue'' =  Inr [Num (937 / 1000), Num (12 / 10)]"
    by (simp_all add: twice_newlyn_def table_def get_col_def)
  have e: "get_col (data newlyn_bangor) ''dateTime'' = Inr [Str ''2021-09-20T02:00:00Z'', Str ''2021-09-20T02:00:00Z'']"
    "get_col (data newlyn_bangor) ''stationName'' = Inr [Str ''Newlyn'', Str ''Bangor'']"
    "get_col (data newlyn_bangor) ''tideValue'' =  Inr [Num (937 / 1000), Num (12 / 10)]"
    by (simp_all add: newlyn_bangor_def table_def get_col_def)
  have "fst (station_tides pd twice_newlyn [''Newlyn''] None None) = Inl ValueError"
    using duplicate_reading_raises [OF c(1) same_instant_twice c(2) c(3), of "[''Newlyn'']" None None]
    by simp
  moreover have "\<exists>df. fst (station_tides pd newlyn_bangor [''Newlyn''] None None) = Inr df"
    using duplicate_reading_raises [OF e(1) same_instant_twice e(2) e(3), of "[''Newlyn'']" None None]
    by simp
  ultimately show ?thesis by simp
qed

subsection \<open>What a query does to the stored table\<close>













lemma one_bad_after_max:
  "data (snd (max_tides pd one_bad None None)) =
     \<lparr>nrows = 3,
      cols = [(''dateTime'', [Ts 1632103200000000000, Ts 1632106800000000000, Ts 1632110400000000000]),
              (''stationName'', [Str ''X'', Str ''X'', Str ''X'']),
              (''tideValue'', [Num 1, Num 0, Num 3])]\<rparr>"
  by code_simp


subsection \<open>Construction from a file\<close>

lemma get_col_missing: "n \<notin> set (columns d) \<Longrightarrow> get_col d n = Inl KeyError"
proof -
  assume "n \<notin> set (columns d)"
  then have "map_of (cols d) n = None"
    by (simp add: columns_def map_of_eq_None_iff)
  then show ?thesis by (simp add: get_col_def)
qed

text \<open>
  Claim C8, as stated: construction fails if the header lacks a required column. A
  readable file with the single column \<open>stationName\<close> is loaded without error.
\<close>

theorem stations_only_loads:
  "Reader_init pd (one_file ''stations.csv'' stations_only) ''stations.csv''
     = Inr \<lparr>filename = ''stations.csv'',
            data = \<lparr>nrows = 1, cols = [(''stationName'', [Str ''Newlyn''])]\<rparr>\<rparr>"
  by code_simp

text \<open>
  Claim C8, amended. Construction fails exactly when the file is missing or unreadable or
  \<open>read_csv\<close> cannot parse it; the names of the columns are not looked at. A table
  loaded without \<open>tideValue\<close> makes \<open>max_tides\<close>, \<open>min_tides\<close>, \<open>mean_tides\<close> and
  \<open>station_graph\<close> raise \<open>KeyError\<close>, and one without \<open>dateTime\<close> makes \<open>station_tides\<close>
  raise \<open>KeyError\<close>, at the call of the query and with the table unchanged.
\<close>

theorem load_checks_no_columns:
  "((\<exists>e. Reader_init P fs f = Inl e) \<longleftrightarrow>
      fs f = None \<or> (\<exists>c e. fs f = Some c \<and> read_csv P c = Inl e))
   \<and> (\<forall>r. Reader_init P fs f = Inr r \<and> ''tideValue'' \<notin> set (columns (data r)) \<longrightarrow>
         max_tides P r a b = (Inl KeyError, r) \<and> min_tides P r a b = (Inl KeyError, r)
         \<and> mean_tides P r a b = (Inl KeyError, r) \<and> station_graph P r s a b = (Inl KeyError, r))
   \<and> (\<forall>r. Reader_init P fs f = Inr r \<and> ''dateTime'' \<notin> set (columns (data r)) \<longrightarrow>
         station_tides P r S a b = (Inl KeyError, r))"
  by (auto simp: Reader_init_def max_tides_def min_tides_def mean_tides_def tides_by_def
      station_graph_def station_tides_def get_col_missing split: option.splits sum.splits)

theorem load_checks_no_columns_witness:
  "Reader_init pd (one_file ''stations.csv'' stations_only) ''stations.csv''
     = Inr \<lparr>filename = ''stations.csv'',
            data = \<lparr>nrows = 1, cols = [(''stationName'', [Str ''Newlyn''])]\<rparr>\<rparr>
   \<and> fst (max_tides pd \<lparr>filename = ''stations.csv'',
            data = \<lparr>nrows = 1, cols = [(''stationName'', [Str ''Newlyn''])]\<rparr>\<rparr> None None) = Inl KeyError
   \<and> fst (station_tides pd \<lparr>filename = ''stations.csv'',
            data = \<lparr>nrows = 1, cols = [(''stationName'', [Str ''Newlyn''])]\<rparr>\<rparr> [''Newlyn''] None None) = Inl KeyError"
proof -
  let ?r = "\<lparr>filename = ''stations.csv'',
            data = \<lparr>nrows = 1, cols = [(''stationName'', [Str ''Newlyn''])]\<rparr>\<rparr>"
  have l: "Reader_init pd (one_file ''stations.csv'' stations_only) ''stations.csv'' = Inr ?r"
    by code_simp
  have m: "''tideValue'' \<notin> set (columns (data ?r))" "''dateTime'' \<notin> set (columns (data ?r))"
    by (simp_all add: columns_def)
  from load_checks_no_columns [of pd "one_file ''stations.csv'' stations_only" "''stations.csv''"
      None None "[]" "[''Newlyn'']"] l m
  have "max_tides pd ?r None None = (Inl KeyError, ?r)"
    and "station_tides pd ?r [''Newlyn''] None None = (Inl KeyError, ?r)"
    by blast+
  with l show ?thesis by simp
qed

subsection \<open>Export and reload\<close>















subsection \<open>The aggregates without a window\<close>

text \<open>
  Without a window the three aggregates return what the specification asks for, on
  every table with the three columns whose timestamps parse and whose stations are all
  named: the defect of claim C1 is confined to calls with a window.
\<close>

lemma spec_aggregate_unbounded:
  assumes tv: "get_col d ''tideValue'' = Inr tv"
    and dt: "get_col d ''dateTime'' = Inr dt"
    and ts: "to_datetime P dt = Inr ts"
    and st: "get_col d ''stationName'' = Inr st"
    and len: "length st = length tv" "length dt = length st"
    and nan: "NaN \<notin> set st"
  shows "spec_aggregate f P d None None
         = map (\<lambda>k. (k, Num (f (station_values P st tv k)))) (stations st)"
proof -
  have l: "length ts = length st" using to_datetime_length [OF ts] len by simp
  have "window_rows P d None None = map snd (zip ts (zip st (map (coerced_value P) tv)))"
    by (simp add: window_rows_def tv dt ts st in_window_def)
  also have "\<dots> = zip st (map (coerced_value P) tv)"
    by (rule map_snd_zip) (simp add: l len)
  finally have w: "window_rows P d None None = zip st (map (coerced_value P) tv)" .
  have f: "map fst (zip st (map (coerced_value P) tv)) = st"
    by (rule map_fst_zip) (simp add: len)
  have "filter (\<lambda>k. k \<noteq> NaN) st = st"
    using nan by (induction st) auto
  then have s: "stations st = sorted_unique st"
    by (simp add: stations_def)
  show ?thesis
    by (simp add: spec_aggregate_def w f s station_values_def rows_where_def Let_def)
qed

lemma max_tides_unbounded_meets_spec:
  assumes "get_col (data r) ''tideValue'' = Inr tv"
    and "get_col (data r) ''dateTime'' = Inr dt"
    and "to_datetime P dt = Inr ts"
    and "get_col (data r) ''stationName'' = Inr st"
    and "length st = length tv" "length dt = length st"
    and "NaN \<notin> set st"
  shows "fst (max_tides P r None None) = Inr (spec_aggregate maximum P (data r) None None)"
    and "fst (min_tides P r None None) = Inr (spec_aggregate minimum P (data r) None None)"
    and "fst (mean_tides P r None None) = Inr (spec_aggregate mean P (data r) None None)"
  unfolding max_tides_def min_tides_def mean_tides_def
  using assms
  by (simp_all add: spec_aggregate_unbounded tides_by_stations
      series_max_Num series_min_Num series_mean_Num)

end
